theory Spec2Isabelle
  imports Complex_Main "HOL-Library.Stream"
begin

section \<open>Financial decision simulation: the sampling and aggregation engine of app.py\<close>

text \<open>
  The numeric core of \<^verbatim>\<open>app.py\<close> is \<^verbatim>\<open>simulate_df\<close> (the per-trial formulas), the
  \<^verbatim>\<open>metrics\<close> dictionary of \<^verbatim>\<open>run_and_save_once\<close> (the summary statistics) and the
  sensitivity loop of \<^verbatim>\<open>save_chart_images\<close>.

  Numbers are modelled as mathematical reals: Python's floats are read as the reals they
  approximate, so rounding is outside the model throughout. NaN is kept as the result of
  a pandas reduction, where it is the value \<open>None\<close> of \<open>real option\<close>. Overflow,
  infinities and NaN of the arithmetic of \<^verbatim>\<open>simulate_df\<close> are the subject of a second
  reading of that function, on finite doubles, given after the first.
\<close>

subsection \<open>The random source\<close>

text \<open>
  \<^verbatim>\<open>np.random\<close> is a global generator. Its state is modelled by the stream of unit samples
  it is going to produce, threaded explicitly through every function that draws from it.
  \<^verbatim>\<open>np.random.uniform(low, high)\<close> is library code: numpy computes
  \<^verbatim>\<open>low + (high - low) * random_sample()\<close> with \<^verbatim>\<open>random_sample()\<close> in \<open>[0, 1)\<close>.
\<close>

type_synonym rng = "real stream"

definition uniform :: "real \<Rightarrow> real \<Rightarrow> rng \<Rightarrow> real \<times> rng" where
  "uniform low high rs = (low + (high - low) * shd rs, stl rs)"

definition unit_samples :: "rng \<Rightarrow> bool" where
  "unit_samples rs \<longleftrightarrow> (\<forall>u \<in> sset rs. 0 \<le> u \<and> u < 1)"

subsection \<open>simulate_df\<close>

text \<open>
  One row of the data frame built by \<^verbatim>\<open>simulate_df\<close>; the fields are its three columns
  \<^verbatim>\<open>"Revenue"\<close>, \<^verbatim>\<open>"Cost"\<close>, \<^verbatim>\<open>"Profit"\<close>. A data frame is the list of its rows.
\<close>

record row =
  Revenue :: real
  Cost :: real
  Profit :: real

type_synonym dataframe = "row list"

text \<open>
  The body of the \<^verbatim>\<open>for\<close> loop: two draws, then the three formulas.
  \<^verbatim>\<open>
      rev = base_sales * (1 + np.random.uniform(-gr, gr))
      cost = rev * np.random.uniform(cost_pct - 0.05, cost_pct + 0.05)
      profit = (rev - cost) * (1 - tax_pct)
  \<close>
\<close>

definition trial :: "real \<Rightarrow> real \<Rightarrow> real \<Rightarrow> real \<Rightarrow> rng \<Rightarrow> row \<times> rng" where
  "trial base_sales gr cost_pct tax_pct rs =
     (let (u1, rs1) = uniform (- gr) gr rs;
          rev = base_sales * (1 + u1);
          (u2, rs2) = uniform (cost_pct - 0.05) (cost_pct + 0.05) rs1;
          cost = rev * u2;
          profit = (rev - cost) * (1 - tax_pct)
      in (\<lparr>Revenue = rev, Cost = cost, Profit = profit\<rparr>, rs2))"

text \<open>
  The loop \<^verbatim>\<open>for _ in range(n_runs): ...; rows.append((rev, cost, profit))\<close>, with the
  number of iterations left, the rows collected so far and the generator.
\<close>

fun simulate_loop ::
  "real \<Rightarrow> real \<Rightarrow> real \<Rightarrow> real \<Rightarrow> nat \<Rightarrow> row list \<Rightarrow> rng \<Rightarrow> row list \<times> rng" where
  "simulate_loop base_sales gr cost_pct tax_pct 0 rows rs = (rows, rs)"
| "simulate_loop base_sales gr cost_pct tax_pct (Suc k) rows rs =
     (let (r, rs') = trial base_sales gr cost_pct tax_pct rs
      in simulate_loop base_sales gr cost_pct tax_pct k (rows @ [r]) rs')"

text \<open>
  \<^verbatim>\<open>n_runs\<close> is a Python int; \<^verbatim>\<open>range(n_runs)\<close> has \<open>n_runs\<close> elements when that is
  positive and none otherwise. The source has no check of its arguments and no
  \<^verbatim>\<open>raise\<close>, so the model has no error branch.
\<close>

definition simulate_df :: "real \<Rightarrow> real \<Rightarrow> real \<Rightarrow> real \<Rightarrow> int \<Rightarrow> rng \<Rightarrow> dataframe \<times> rng" where
  "simulate_df base_sales gr cost_pct tax_pct n_runs rs =
     simulate_loop base_sales gr cost_pct tax_pct (nat n_runs) [] rs"

subsection \<open>Summary statistics\<close>

text \<open>
  Modelled from the spec: the four reductions \<^verbatim>\<open>Series.mean\<close>, \<^verbatim>\<open>Series.max\<close>,
  \<^verbatim>\<open>Series.min\<close> and \<^verbatim>\<open>Series.std\<close> are pandas library code, which is not under
  \<^verbatim>\<open>src/\<close>. Section 4.1 of the specification gives the summary a non-empty input and
  describes the four values there: arithmetic mean, maximum, minimum, and sample standard
  deviation with divisor \<open>n - 1\<close>, which is NaN for \<open>n = 1\<close>. A result is a
  \<open>real option\<close>, and \<open>None\<close> is NaN. The equations cover the non-empty column only:
  what pandas does on an empty one is neither in the source nor in these words, so no
  equation is given for it and nothing is stated about it.
\<close>

fun series_mean :: "real list \<Rightarrow> real option" where
  "series_mean (x # r) = Some (sum_list (x # r) / real (length (x # r)))"

fun series_max :: "real list \<Rightarrow> real option" where
  "series_max (x # r) = Some (fold max r x)"

fun series_min :: "real list \<Rightarrow> real option" where
  "series_min (x # r) = Some (fold min r x)"

fun series_std :: "real list \<Rightarrow> real option" where
  "series_std [x] = None"
| "series_std (x # y # r) =
     (let xs = x # y # r;
          m = sum_list xs / real (length xs)
      in Some (sqrt (sum_list (map (\<lambda>v. (v - m)\<^sup>2) xs) / real (length xs - 1))))"

text \<open>
  The dictionary \<^verbatim>\<open>metrics\<close> of \<^verbatim>\<open>run_and_save_once\<close>, with its keys \<^verbatim>\<open>'avg'\<close>,
  \<^verbatim>\<open>'max'\<close>, \<^verbatim>\<open>'min'\<close> and \<^verbatim>\<open>'std'\<close> as fields.
\<close>

record metrics =
  avg :: "real option"
  max_profit :: "real option"
  min_profit :: "real option"
  std :: "real option"

text \<open>
  \<^verbatim>\<open>
      metrics = {
          'avg': df_sim["Profit"].mean(),
          'max': df_sim["Profit"].max(),
          'min': df_sim["Profit"].min(),
          'std': df_sim["Profit"].std()
      }
  \<close>
\<close>

definition profit_metrics :: "dataframe \<Rightarrow> metrics" where
  "profit_metrics df_sim =
     \<lparr>avg = series_mean (map Profit df_sim),
      max_profit = series_max (map Profit df_sim),
      min_profit = series_min (map Profit df_sim),
      std = series_std (map Profit df_sim)\<rparr>"

subsection \<open>The sensitivity sweep of save_chart_images\<close>

text \<open>
  \<^verbatim>\<open>np.linspace(start, stop, num)\<close> is numpy library code: with \<open>div = num - 1\<close> it returns
  \<^verbatim>\<open>arange(0, num) * step + start\<close> for \<open>step = (stop - start) / div\<close> when \<open>div > 0\<close>,
  \<^verbatim>\<open>arange(0, num) * (stop - start) + start\<close> otherwise, and stores \<open>stop\<close> in the last
  place when \<open>num > 1\<close>.
\<close>

definition linspace :: "real \<Rightarrow> real \<Rightarrow> nat \<Rightarrow> real list" where
  "linspace start stop num =
     (if num \<le> 1 then map (\<lambda>i. real i * (stop - start) + start) [0..<num]
      else (map (\<lambda>i. real i * ((stop - start) / real (num - 1)) + start) [0..<num])
             [num - 1 := stop])"

text \<open>
  The list comprehension
  \<^verbatim>\<open>[simulate_df(sales, g, cost_pct, tax_pct, 200)["Profit"].mean() for g in grs]\<close>;
  every element draws from the generator the previous one left.
\<close>

fun avg_profits ::
  "real \<Rightarrow> real \<Rightarrow> real \<Rightarrow> real list \<Rightarrow> rng \<Rightarrow> real option list \<times> rng" where
  "avg_profits sales cost_pct tax_pct [] rs = ([], rs)"
| "avg_profits sales cost_pct tax_pct (g # grs) rs =
     (let (df, rs1) = simulate_df sales g cost_pct tax_pct 200 rs;
          a = series_mean (map Profit df);
          (rest, rs2) = avg_profits sales cost_pct tax_pct grs rs1
      in (a # rest, rs2))"

text \<open>
  The data of the second chart of \<^verbatim>\<open>save_chart_images\<close>: the growth rates \<^verbatim>\<open>grs\<close> and
  the list \<^verbatim>\<open>avg_profits\<close>, position by position (the chart shows \<^verbatim>\<open>grs * 100\<close> on its
  horizontal axis). \<^verbatim>\<open>sales\<close>, \<^verbatim>\<open>cost_pct\<close> and \<^verbatim>\<open>tax_pct\<close> are the module's globals
  set by the sidebar.
\<close>

definition sensitivity ::
  "real \<Rightarrow> real \<Rightarrow> real \<Rightarrow> rng \<Rightarrow> (real list \<times> real option list) \<times> rng" where
  "sensitivity sales cost_pct tax_pct rs =
     (let grs = linspace 0.05 0.25 5;
          (avgs, rs') = avg_profits sales cost_pct tax_pct grs rs
      in ((grs, avgs), rs'))"

subsection \<open>Overflow: simulate_df on finite doubles\<close>

text \<open>
  A second reading of \<^verbatim>\<open>simulate_df\<close>, for the question whether its results are finite.
  A Python float is a binary64 number, an infinity or NaN. Here a \<open>double\<close> is
  \<open>Some x\<close> for a finite value \<open>x\<close> and \<open>None\<close> for an infinity or NaN. Rounding is still
  left out: an operation on finite values has its real result when that is no larger in
  magnitude than the largest finite double, and is not finite otherwise. Python's float
  \<^verbatim>\<open>+\<close>, \<^verbatim>\<open>-\<close> and \<^verbatim>\<open>*\<close> raise nothing on overflow, and with an infinity or NaN as an
  operand their result is again an infinity or NaN.
\<close>

definition max_double :: real where
  "max_double = (2 - 1 / 2 ^ 52) * 2 ^ 1023"

type_synonym double = "real option"

definition chk :: "real \<Rightarrow> double" where
  "chk x = (if \<bar>x\<bar> \<le> max_double then Some x else None)"

definition fl_neg :: "double \<Rightarrow> double" where
  "fl_neg a = (case a of Some x \<Rightarrow> Some (- x) | None \<Rightarrow> None)"

definition fl_add :: "double \<Rightarrow> double \<Rightarrow> double" where
  "fl_add a b = (case (a, b) of (Some x, Some y) \<Rightarrow> chk (x + y) | _ \<Rightarrow> None)"

definition fl_sub :: "double \<Rightarrow> double \<Rightarrow> double" where
  "fl_sub a b = (case (a, b) of (Some x, Some y) \<Rightarrow> chk (x - y) | _ \<Rightarrow> None)"

definition fl_mul :: "double \<Rightarrow> double \<Rightarrow> double" where
  "fl_mul a b = (case (a, b) of (Some x, Some y) \<Rightarrow> chk (x * y) | _ \<Rightarrow> None)"

text \<open>
  \<^verbatim>\<open>np.random.uniform(low, high)\<close> (numpy library code) computes \<^verbatim>\<open>high - low\<close> first and
  raises \<^verbatim>\<open>OverflowError\<close> when that is not finite; otherwise it returns
  \<^verbatim>\<open>low + (high - low) * random_sample()\<close>. It is the only place on the path of
  \<^verbatim>\<open>simulate_df\<close> that can raise.
\<close>

datatype py_error = OverflowError

definition uniform_ovf :: "double \<Rightarrow> double \<Rightarrow> rng \<Rightarrow> py_error + double \<times> rng" where
  "uniform_ovf low high rs =
     (case fl_sub high low of
        None \<Rightarrow> Inl OverflowError
      | Some rng_range \<Rightarrow> Inr (fl_add low (fl_mul (Some rng_range) (Some (shd rs))), stl rs))"

record row_ovf =
  Revenue_ovf :: double
  Cost_ovf :: double
  Profit_ovf :: double

text \<open>The loop body of \<^verbatim>\<open>simulate_df\<close> again, operation by operation.\<close>

definition trial_ovf ::
  "double \<Rightarrow> double \<Rightarrow> double \<Rightarrow> double \<Rightarrow> rng \<Rightarrow> py_error + row_ovf \<times> rng" where
  "trial_ovf base_sales gr cost_pct tax_pct rs =
     (case uniform_ovf (fl_neg gr) gr rs of
        Inl e \<Rightarrow> Inl e
      | Inr (u1, rs1) \<Rightarrow>
          let rev = fl_mul base_sales (fl_add (Some 1) u1) in
          (case uniform_ovf (fl_sub cost_pct (Some 0.05)) (fl_add cost_pct (Some 0.05)) rs1 of
             Inl e \<Rightarrow> Inl e
           | Inr (u2, rs2) \<Rightarrow>
               let cost = fl_mul rev u2;
                   profit = fl_mul (fl_sub rev cost) (fl_sub (Some 1) tax_pct)
               in Inr (\<lparr>Revenue_ovf = rev, Cost_ovf = cost, Profit_ovf = profit\<rparr>, rs2)))"

text \<open>The loop; an exception in the body ends the call with no data frame.\<close>

fun simulate_loop_ovf ::
  "double \<Rightarrow> double \<Rightarrow> double \<Rightarrow> double \<Rightarrow> nat \<Rightarrow> row_ovf list \<Rightarrow> rng
     \<Rightarrow> py_error + row_ovf list \<times> rng" where
  "simulate_loop_ovf base_sales gr cost_pct tax_pct 0 rows rs = Inr (rows, rs)"
| "simulate_loop_ovf base_sales gr cost_pct tax_pct (Suc k) rows rs =
     (case trial_ovf base_sales gr cost_pct tax_pct rs of
        Inl e \<Rightarrow> Inl e
      | Inr (r, rs') \<Rightarrow> simulate_loop_ovf base_sales gr cost_pct tax_pct k (rows @ [r]) rs')"

definition simulate_df_ovf ::
  "double \<Rightarrow> double \<Rightarrow> double \<Rightarrow> double \<Rightarrow> int \<Rightarrow> rng \<Rightarrow> py_error + row_ovf list \<times> rng" where
  "simulate_df_ovf base_sales gr cost_pct tax_pct n_runs rs =
     simulate_loop_ovf base_sales gr cost_pct tax_pct (nat n_runs) [] rs"

text \<open>A row of reals seen as a row of finite doubles.\<close>

definition finite_row :: "row \<Rightarrow> row_ovf" where
  "finite_row r =
     \<lparr>Revenue_ovf = Some (Revenue r), Cost_ovf = Some (Cost r), Profit_ovf = Some (Profit r)\<rparr>"

section \<open>Properties\<close>

subsection \<open>The loop and the generator\<close>

lemma simulate_loop_length:
  "length (fst (simulate_loop b g c t k rows rs)) = length rows + k"
  by (induction k arbitrary: rows rs) (auto simp: Let_def split: prod.splits)

lemma simulate_loop_rng:
  "snd (simulate_loop b g c t k rows rs) = sdrop (2 * k) rs"
  by (induction k arbitrary: rows rs)
     (auto simp: Let_def trial_def uniform_def split: prod.splits)

lemma trial_rng: "snd (trial b g c t rs) = sdrop 2 rs"
  by (simp add: trial_def uniform_def Let_def eval_nat_numeral)

text \<open>
  The rows in closed form: row \<open>i\<close> is the loop body run on the generator after \<open>2 * i\<close>
  draws.
\<close>

lemma simulate_loop_rows:
  "fst (simulate_loop b g c t k rows rs) =
     rows @ map (\<lambda>i. fst (trial b g c t (sdrop (2 * i) rs))) [0..<k]"
proof (induction k arbitrary: rows rs)
  case 0
  show ?case by simp
next
  case (Suc k)
  show ?case
    unfolding map_upt_Suc
    by (simp add: Suc.IH split_def Let_def trial_rng del: upt_Suc)
qed

lemma simulate_df_rows:
  "fst (simulate_df b g c t n rs) =
     map (\<lambda>i. fst (trial b g c t (sdrop (2 * i) rs))) [0..<nat n]"
  by (simp add: simulate_df_def simulate_loop_rows)

lemma simulate_df_rng: "snd (simulate_df b g c t n rs) = sdrop (2 * nat n) rs"
  by (simp add: simulate_df_def simulate_loop_rng)

lemma unit_samples_shd: "unit_samples rs \<Longrightarrow> 0 \<le> shd rs \<and> shd rs < 1"
  by (simp add: unit_samples_def shd_sset)

lemma unit_samples_stl: "unit_samples rs \<Longrightarrow> unit_samples (stl rs)"
  by (auto simp: unit_samples_def dest: stl_sset)

lemma unit_samples_sdrop: "unit_samples rs \<Longrightarrow> unit_samples (sdrop k rs)"
  by (induction k arbitrary: rs) (simp_all add: unit_samples_stl)

subsection \<open>One trial\<close>

lemma trial_Revenue:
  "Revenue (fst (trial b g c t rs)) = b * (1 + (- g + (g - - g) * shd rs))"
  by (simp add: trial_def uniform_def Let_def)

lemma trial_Cost:
  "Cost (fst (trial b g c t rs)) =
     Revenue (fst (trial b g c t rs)) * ((c - 0.05) + ((c + 0.05) - (c - 0.05)) * shd (stl rs))"
  by (simp add: trial_def uniform_def Let_def)

lemma trial_Profit:
  "Profit (fst (trial b g c t rs)) =
     (Revenue (fst (trial b g c t rs)) - Cost (fst (trial b g c t rs))) * (1 - t)"
  by (simp add: trial_def uniform_def Let_def)

lemma trial_Revenue_bounds:
  assumes "0 \<le> b" "0 \<le> g" "unit_samples rs"
  shows "b * (1 - g) \<le> Revenue (fst (trial b g c t rs))"
    and "Revenue (fst (trial b g c t rs)) \<le> b * (1 + g)"
proof -
  have u: "0 \<le> shd rs" "shd rs < 1" using assms(3) unit_samples_shd by auto
  have "- g \<le> - g + (g - - g) * shd rs"
    using assms(2) u by simp
  then have "1 - g \<le> 1 + (- g + (g - - g) * shd rs)" by simp
  then show "b * (1 - g) \<le> Revenue (fst (trial b g c t rs))"
    unfolding trial_Revenue using assms(1) by (rule mult_left_mono)
  have "(g + g) * shd rs \<le> (g + g) * 1"
    using assms(2) u by (intro mult_left_mono) auto
  then have "1 + (- g + (g - - g) * shd rs) \<le> 1 + g" by simp
  then show "Revenue (fst (trial b g c t rs)) \<le> b * (1 + g)"
    unfolding trial_Revenue using assms(1) by (rule mult_left_mono)
qed

subsection \<open>The reductions\<close>

lemma series_mean_nonempty:
  "xs \<noteq> [] \<Longrightarrow> series_mean xs = Some (sum_list xs / real (length xs))"
  by (cases xs) simp_all

lemma series_max_Max: "xs \<noteq> [] \<Longrightarrow> series_max xs = Some (Max (set xs))"
  by (cases xs) (simp_all flip: Max.set_eq_fold)

lemma series_min_Min: "xs \<noteq> [] \<Longrightarrow> series_min xs = Some (Min (set xs))"
  by (cases xs) (simp_all flip: Min.set_eq_fold)

lemma series_std_one: "length xs = 1 \<Longrightarrow> series_std xs = None"
  by (cases xs rule: series_std.cases) simp_all

lemma series_std_many:
  "2 \<le> length xs \<Longrightarrow>
     series_std xs =
       Some (sqrt (sum_list (map (\<lambda>v. (v - sum_list xs / real (length xs))\<^sup>2) xs)
                     / real (length xs - 1)))"
  by (cases xs rule: series_std.cases) (simp_all add: Let_def)

lemma linspace_grs: "linspace (1/20) (1/4) 5 = [1/20, 1/10, 3/20, 1/5, 1/4]"
  by (simp add: linspace_def upt_rec)

lemma series_mean_200:
  "series_mean (map Profit (fst (simulate_df s g c t 200 rs))) =
     Some (sum_list (map Profit (fst (simulate_df s g c t 200 rs))) / 200)"
proof -
  have "length (fst (simulate_df s g c t 200 rs)) = 200"
    by (simp add: simulate_df_def simulate_loop_length)
  then have "map Profit (fst (simulate_df s g c t 200 rs)) \<noteq> []" by auto
  then show ?thesis
    using \<open>length (fst (simulate_df s g c t 200 rs)) = 200\<close>
    by (simp add: series_mean_nonempty)
qed

subsection \<open>Number of trials\<close>

text \<open>
  Claim C1. For every parameter set and every run count \<open>n \<ge> 1\<close>, the data frame
  returned by \<open>simulate_df\<close> has exactly \<open>n\<close> rows.
\<close>

theorem simulate_df_length:
  "1 \<le> n \<Longrightarrow> int (length (fst (simulate_df b g c t n rs))) = n"
  by (simp add: simulate_df_def simulate_loop_length)

theorem simulate_df_length_witness:
  "(1::int) \<le> 3 \<and>
   int (length (fst (simulate_df 500000 (1/10) (2/5) (1/5) 3 (sconst (1/2))))) = 3"
  using simulate_df_length [of 3 500000 "1/10" "2/5" "1/5" "sconst (1/2)"] by simp

subsection \<open>The profit formula\<close>

text \<open>
  Claim C2. In every row of the data frame returned by \<open>simulate_df\<close>, the profit is
  \<open>(revenue - cost) * (1 - tax_pct)\<close> for the revenue and the cost of that same row.
\<close>

theorem simulate_df_profit:
  "r \<in> set (fst (simulate_df b g c t n rs)) \<Longrightarrow>
     Profit r = (Revenue r - Cost r) * (1 - t)"
  by (auto simp: simulate_df_rows trial_Profit)

theorem simulate_df_profit_witness:
  "\<lparr>Revenue = 500000, Cost = 200000, Profit = 240000\<rparr>
      \<in> set (fst (simulate_df 500000 (1/10) (2/5) (1/5) 1 (sconst (1/2)))) \<and>
   Profit \<lparr>Revenue = 500000, Cost = 200000, Profit = 240000\<rparr> =
     (Revenue \<lparr>Revenue = 500000, Cost = 200000, Profit = 240000\<rparr>
        - Cost \<lparr>Revenue = 500000, Cost = 200000, Profit = 240000\<rparr>) * (1 - 1/5)"
proof -
  have m: "\<lparr>Revenue = 500000, Cost = 200000, Profit = 240000\<rparr>
      \<in> set (fst (simulate_df 500000 (1/10) (2/5) (1/5) 1 (sconst (1/2))))"
    by (simp add: simulate_df_def trial_def uniform_def Let_def)
  from m simulate_df_profit [OF m] show ?thesis by (rule conjI)
qed

subsection \<open>Non-positive run counts\<close>




subsection \<open>Range of the revenue\<close>

text \<open>
  Claim C5. For base sales \<open>b \<ge> 0\<close> and growth rate \<open>g \<ge> 0\<close> (the domain of the
  specification has \<open>b > 0\<close> and \<open>0 \<le> g < 1\<close>), and for every generator whose unit samples
  lie in \<open>[0, 1)\<close>, the revenue of every row returned by \<open>simulate_df\<close> lies in the closed
  interval from \<open>b * (1 - g)\<close> to \<open>b * (1 + g)\<close>.
\<close>

theorem simulate_df_revenue_bounds:
  assumes "0 \<le> b" "0 \<le> g" "unit_samples rs"
    and "r \<in> set (fst (simulate_df b g c t n rs))"
  shows "b * (1 - g) \<le> Revenue r \<and> Revenue r \<le> b * (1 + g)"
proof -
  from assms(4) obtain i where r: "r = fst (trial b g c t (sdrop (2 * i) rs))"
    by (auto simp: simulate_df_rows)
  have "unit_samples (sdrop (2 * i) rs)" using assms(3) by (rule unit_samples_sdrop)
  with assms(1,2) show ?thesis
    unfolding r using trial_Revenue_bounds [of b g "sdrop (2 * i) rs" c t] by simp
qed

theorem simulate_df_revenue_bounds_witness:
  "(0::real) \<le> 500000 \<and> (0::real) \<le> 1/10 \<and> unit_samples (sconst (1/2)) \<and>
   \<lparr>Revenue = 500000, Cost = 200000, Profit = 240000\<rparr>
      \<in> set (fst (simulate_df 500000 (1/10) (2/5) (1/5) 1 (sconst (1/2)))) \<and>
   500000 * (1 - 1/10) \<le> Revenue \<lparr>Revenue = 500000, Cost = 200000, Profit = 240000\<rparr> \<and>
   Revenue \<lparr>Revenue = 500000, Cost = 200000, Profit = 240000\<rparr> \<le> 500000 * (1 + 1/10)"
proof -
  have b: "(0::real) \<le> 500000" and g: "(0::real) \<le> 1/10" by simp_all
  have u: "unit_samples (sconst (1/2))" by (simp add: unit_samples_def)
  have m: "\<lparr>Revenue = 500000, Cost = 200000, Profit = 240000\<rparr>
      \<in> set (fst (simulate_df 500000 (1/10) (2/5) (1/5) 1 (sconst (1/2))))"
    by (simp add: simulate_df_def trial_def uniform_def Let_def)
  from simulate_df_revenue_bounds [OF b g u m] b g u m show ?thesis by blast
qed

subsection \<open>Statistics of a non-empty data frame\<close>

text \<open>
  Claim C6. For a non-empty data frame with profit values \<open>ps\<close> and \<open>n\<close> rows, the
  \<^verbatim>\<open>metrics\<close> hold the arithmetic mean \<open>sum ps / n\<close>, the maximum and the minimum of
  \<open>ps\<close>, and the sample standard deviation: the square root of the sum of squared
  deviations from the mean divided by \<open>n - 1\<close>, which is NaN for \<open>n = 1\<close>. For a data
  frame of one row, mean, maximum and minimum are that row's profit and the standard
  deviation is NaN.
\<close>

theorem profit_metrics_statistics:
  assumes "df \<noteq> []"
  defines "ps \<equiv> map Profit df"
  defines "n \<equiv> length df"
  defines "m \<equiv> sum_list ps / real n"
  shows "avg (profit_metrics df) = Some m
       \<and> max_profit (profit_metrics df) = Some (Max (set ps))
       \<and> min_profit (profit_metrics df) = Some (Min (set ps))
       \<and> std (profit_metrics df) =
           (if n = 1 then None
            else Some (sqrt (sum_list (map (\<lambda>x. (x - m)\<^sup>2) ps) / real (n - 1))))
       \<and> (\<forall>r. df = [r] \<longrightarrow>
             avg (profit_metrics df) = Some (Profit r)
           \<and> max_profit (profit_metrics df) = Some (Profit r)
           \<and> min_profit (profit_metrics df) = Some (Profit r)
           \<and> std (profit_metrics df) = None)"
proof -
  have ne: "ps \<noteq> []" using assms(1) by (simp add: ps_def)
  have len: "length ps = n" by (simp add: ps_def n_def)
  have n0: "n \<noteq> 0" using assms(1) by (simp add: n_def)
  have a: "avg (profit_metrics df) = Some m"
    using ne by (simp add: profit_metrics_def series_mean_nonempty m_def len flip: ps_def)
  have b: "max_profit (profit_metrics df) = Some (Max (set ps))"
    using ne by (simp add: profit_metrics_def series_max_Max flip: ps_def)
  have c: "min_profit (profit_metrics df) = Some (Min (set ps))"
    using ne by (simp add: profit_metrics_def series_min_Min flip: ps_def)
  have d: "std (profit_metrics df) =
           (if n = 1 then None
            else Some (sqrt (sum_list (map (\<lambda>x. (x - m)\<^sup>2) ps) / real (n - 1))))"
  proof (cases "n = 1")
    case True
    then show ?thesis
      by (simp add: profit_metrics_def series_std_one len flip: ps_def)
  next
    case False
    with n0 have "2 \<le> length ps" by (simp add: len)
    with False show ?thesis
      by (simp add: profit_metrics_def series_std_many m_def len flip: ps_def)
  qed
  have e: "\<forall>r. df = [r] \<longrightarrow>
             avg (profit_metrics df) = Some (Profit r)
           \<and> max_profit (profit_metrics df) = Some (Profit r)
           \<and> min_profit (profit_metrics df) = Some (Profit r)
           \<and> std (profit_metrics df) = None"
    by (simp add: profit_metrics_def)
  from a b c d e show ?thesis by blast
qed

theorem profit_metrics_statistics_witness:
  "[\<lparr>Revenue = 500000, Cost = 200000, Profit = 240000\<rparr>] \<noteq> []
   \<and> avg (profit_metrics [\<lparr>Revenue = 500000, Cost = 200000, Profit = 240000\<rparr>]) = Some 240000
   \<and> max_profit (profit_metrics [\<lparr>Revenue = 500000, Cost = 200000, Profit = 240000\<rparr>]) = Some 240000
   \<and> min_profit (profit_metrics [\<lparr>Revenue = 500000, Cost = 200000, Profit = 240000\<rparr>]) = Some 240000
   \<and> std (profit_metrics [\<lparr>Revenue = 500000, Cost = 200000, Profit = 240000\<rparr>]) = None
   \<and> [\<lparr>Revenue = 10, Cost = 9, Profit = 1\<rparr>, \<lparr>Revenue = 10, Cost = 7, Profit = 3\<rparr>] \<noteq> []
   \<and> avg (profit_metrics [\<lparr>Revenue = 10, Cost = 9, Profit = 1\<rparr>, \<lparr>Revenue = 10, Cost = 7, Profit = 3\<rparr>]) = Some 2
   \<and> max_profit (profit_metrics [\<lparr>Revenue = 10, Cost = 9, Profit = 1\<rparr>, \<lparr>Revenue = 10, Cost = 7, Profit = 3\<rparr>]) = Some 3
   \<and> min_profit (profit_metrics [\<lparr>Revenue = 10, Cost = 9, Profit = 1\<rparr>, \<lparr>Revenue = 10, Cost = 7, Profit = 3\<rparr>]) = Some 1
   \<and> std (profit_metrics [\<lparr>Revenue = 10, Cost = 9, Profit = 1\<rparr>, \<lparr>Revenue = 10, Cost = 7, Profit = 3\<rparr>]) = Some (sqrt 2)"
  using profit_metrics_statistics [of "[\<lparr>Revenue = 500000, Cost = 200000, Profit = 240000\<rparr>]"]
        profit_metrics_statistics [of "[\<lparr>Revenue = 10, Cost = 9, Profit = 1\<rparr>, \<lparr>Revenue = 10, Cost = 7, Profit = 3\<rparr>]"]
  by simp

subsection \<open>The sensitivity sweep\<close>

text \<open>
  Claim C7. The sweep of \<open>save_chart_images\<close> uses exactly the five growth rates 0.05,
  0.10, 0.15, 0.20 and 0.25. Its \<open>i\<close>-th average is the mean of the profits of one call
  of \<open>simulate_df\<close> with the \<open>i\<close>-th growth rate, 200 runs, the same sales, cost and tax
  parameters, and the generator as the \<open>i\<close> calls before left it (400 draws each); that
  mean is the sum of the 200 profits divided by 200. The five calls draw 2000 samples.
\<close>

theorem sensitivity_sweep:
  "fst (fst (sensitivity sales cost_pct tax_pct rs)) = [0.05, 0.10, 0.15, 0.20, 0.25]
   \<and> snd (fst (sensitivity sales cost_pct tax_pct rs)) =
       map (\<lambda>i. series_mean (map Profit (fst
              (simulate_df sales (0.05 + 0.05 * real i) cost_pct tax_pct 200
                 (sdrop (400 * i) rs)))))
           [0..<5]
   \<and> snd (fst (sensitivity sales cost_pct tax_pct rs)) =
       map (\<lambda>i. Some (sum_list (map Profit (fst
              (simulate_df sales (0.05 + 0.05 * real i) cost_pct tax_pct 200
                 (sdrop (400 * i) rs)))) / 200))
           [0..<5]
   \<and> snd (sensitivity sales cost_pct tax_pct rs) = sdrop 2000 rs"
proof -
  have g: "fst (fst (sensitivity sales cost_pct tax_pct rs)) = [0.05, 0.10, 0.15, 0.20, 0.25]"
    by (simp add: sensitivity_def linspace_grs Let_def split_def)
  have a: "snd (fst (sensitivity sales cost_pct tax_pct rs)) =
       map (\<lambda>i. series_mean (map Profit (fst
              (simulate_df sales (0.05 + 0.05 * real i) cost_pct tax_pct 200
                 (sdrop (400 * i) rs)))))
           [0..<5]"
    by (simp add: sensitivity_def linspace_grs Let_def split_def simulate_df_rng upt_rec)
  have s: "snd (sensitivity sales cost_pct tax_pct rs) = sdrop 2000 rs"
    by (simp add: sensitivity_def linspace_grs Let_def split_def simulate_df_rng)
  from g a s show ?thesis by (simp only: series_mean_200 simp_thms)
qed

subsection \<open>The scenario with zero growth\<close>

text \<open>
  Claim C8. For base sales 500000, growth rate 0, cost fraction 0.40, tax fraction 0.20
  and one run, and for every generator whose unit samples lie in \<open>[0, 1)\<close>, the data frame
  has one row; its revenue is exactly 500000, its cost lies between 175000 and 225000,
  its profit is \<open>(500000 - cost) * 0.8\<close> and lies between 220000 and 260000.
\<close>

theorem scenario_zero_growth:
  assumes "unit_samples rs"
  shows "length (fst (simulate_df 500000 0 0.40 0.20 1 rs)) = 1
       \<and> (\<forall>r \<in> set (fst (simulate_df 500000 0 0.40 0.20 1 rs)).
             Revenue r = 500000
           \<and> 175000 \<le> Cost r \<and> Cost r \<le> 225000
           \<and> Profit r = (500000 - Cost r) * 0.8
           \<and> 220000 \<le> Profit r \<and> Profit r \<le> 260000)"
proof -
  have u: "0 \<le> shd (stl rs)" "shd (stl rs) < 1"
    using unit_samples_shd [OF unit_samples_stl [OF assms]] by auto
  show ?thesis using u
    by (simp add: simulate_df_def trial_def uniform_def Let_def)
qed

theorem scenario_zero_growth_witness:
  "unit_samples (sconst (1/2))
   \<and> length (fst (simulate_df 500000 0 0.40 0.20 1 (sconst (1/2)))) = 1
   \<and> \<lparr>Revenue = 500000, Cost = 200000, Profit = 240000\<rparr>
        \<in> set (fst (simulate_df 500000 0 0.40 0.20 1 (sconst (1/2))))
   \<and> 175000 \<le> Cost \<lparr>Revenue = 500000, Cost = 200000, Profit = 240000\<rparr>
   \<and> Cost \<lparr>Revenue = 500000, Cost = 200000, Profit = 240000\<rparr> \<le> 225000
   \<and> 220000 \<le> Profit \<lparr>Revenue = 500000, Cost = 200000, Profit = 240000\<rparr>
   \<and> Profit \<lparr>Revenue = 500000, Cost = 200000, Profit = 240000\<rparr> \<le> 260000"
proof -
  have u: "unit_samples (sconst (1/2))" by (simp add: unit_samples_def)
  have m: "\<lparr>Revenue = 500000, Cost = 200000, Profit = 240000\<rparr>
        \<in> set (fst (simulate_df 500000 0 0.40 0.20 1 (sconst (1/2))))"
    by (simp add: simulate_df_def trial_def uniform_def Let_def)
  from scenario_zero_growth [OF u] u m show ?thesis by simp
qed

subsection \<open>Profit and the tax fraction\<close>

text \<open>
  Claim C10. Run \<open>simulate_df\<close> twice on the same generator with the same parameters
  except the tax fractions \<open>t1 \<le> t2\<close>. The \<open>i\<close>-th rows have the same revenue and the same
  cost, and when that cost is at most the revenue, the profit under \<open>t2\<close> is at most the
  profit under \<open>t1\<close>. For a tax fraction in \<open>[0, 1)\<close> the profit has the sign of revenue
  minus cost.
\<close>

theorem profit_antitone_in_tax:
  fixes b g c t1 t2 :: real and n :: int and rs :: rng and i :: nat
  assumes "t1 \<le> t2" and "i < nat n"
  defines "r1 \<equiv> fst (simulate_df b g c t1 n rs) ! i"
  defines "r2 \<equiv> fst (simulate_df b g c t2 n rs) ! i"
  shows "Revenue r2 = Revenue r1 \<and> Cost r2 = Cost r1
       \<and> (Cost r1 \<le> Revenue r1 \<longrightarrow> Profit r2 \<le> Profit r1)
       \<and> (0 \<le> t1 \<and> t1 < 1 \<longrightarrow> sgn (Profit r1) = sgn (Revenue r1 - Cost r1))"
proof -
  let ?s = "sdrop (2 * i) rs"
  have r1: "r1 = fst (trial b g c t1 ?s)" and r2: "r2 = fst (trial b g c t2 ?s)"
    using assms(2) by (simp_all add: r1_def r2_def simulate_df_rows)
  have rev: "Revenue r2 = Revenue r1" by (simp add: r1 r2 trial_Revenue)
  have cost: "Cost r2 = Cost r1" by (simp add: r1 r2 trial_Cost trial_Revenue)
  have p1: "Profit r1 = (Revenue r1 - Cost r1) * (1 - t1)" by (simp add: r1 trial_Profit)
  have p2: "Profit r2 = (Revenue r1 - Cost r1) * (1 - t2)"
    using rev cost by (simp add: r2 trial_Profit)
  have mono: "Profit r2 \<le> Profit r1" if "Cost r1 \<le> Revenue r1"
    unfolding p1 p2 using that assms(1) by (intro mult_left_mono) auto
  have sg: "sgn (Profit r1) = sgn (Revenue r1 - Cost r1)" if "0 \<le> t1 \<and> t1 < 1"
    unfolding p1 using that by (simp add: sgn_mult)
  from rev cost mono sg show ?thesis by blast
qed

theorem profit_antitone_in_tax_witness:
  "(1/5::real) \<le> 1/2 \<and> (0::nat) < nat 1
   \<and> Cost (fst (simulate_df 500000 (1/10) (2/5) (1/5) 1 (sconst (1/2))) ! 0)
       \<le> Revenue (fst (simulate_df 500000 (1/10) (2/5) (1/5) 1 (sconst (1/2))) ! 0)
   \<and> Profit (fst (simulate_df 500000 (1/10) (2/5) (1/2) 1 (sconst (1/2))) ! 0)
       \<le> Profit (fst (simulate_df 500000 (1/10) (2/5) (1/5) 1 (sconst (1/2))) ! 0)
   \<and> (0::real) \<le> 1/5 \<and> (1/5::real) < 1
   \<and> sgn (Profit (fst (simulate_df 500000 (1/10) (2/5) (1/5) 1 (sconst (1/2))) ! 0)) =
       sgn (Revenue (fst (simulate_df 500000 (1/10) (2/5) (1/5) 1 (sconst (1/2))) ! 0)
            - Cost (fst (simulate_df 500000 (1/10) (2/5) (1/5) 1 (sconst (1/2))) ! 0))"
proof -
  have c: "Cost (fst (simulate_df 500000 (1/10) (2/5) (1/5) 1 (sconst (1/2))) ! 0)
       \<le> Revenue (fst (simulate_df 500000 (1/10) (2/5) (1/5) 1 (sconst (1/2))) ! 0)"
    by (simp add: simulate_df_def trial_def uniform_def Let_def)
  show ?thesis
    using c profit_antitone_in_tax [of "1/5" "1/2" 0 1 500000 "1/10" "2/5" "sconst (1/2)"]
    by simp
qed

subsection \<open>Finite doubles\<close>

lemma max_double_ge: "2 ^ 1023 \<le> max_double"
proof -
  have "(1::real) \<le> 2 - 1 / 2 ^ 52" by simp
  then have "1 * (2::real) ^ 1023 \<le> (2 - 1 / 2 ^ 52) * 2 ^ 1023"
    by (rule mult_right_mono) simp
  then show ?thesis by (simp add: max_double_def)
qed

lemma max_double_ge_4: "4 \<le> max_double"
proof -
  have "(2::real) ^ 2 \<le> 2 ^ 1023" by (rule power_increasing) simp_all
  with max_double_ge show ?thesis by simp
qed

lemma max_double_lt: "max_double < 2 ^ 1024"
proof -
  have "(2 - 1 / 2 ^ 52) * (2::real) ^ 1023 < 2 * 2 ^ 1023"
    by (rule mult_strict_right_mono) simp_all
  then show ?thesis by (simp add: max_double_def)
qed

lemma chk_Some: "\<bar>x\<bar> \<le> max_double \<Longrightarrow> chk x = Some x"
  by (simp add: chk_def)

lemma chk_None: "max_double < \<bar>x\<bar> \<Longrightarrow> chk x = None"
  by (simp add: chk_def)

lemma fl_neg_Some: "fl_neg (Some x) = Some (- x)"
  by (simp add: fl_neg_def)

lemma fl_add_Some: "\<bar>x + y\<bar> \<le> max_double \<Longrightarrow> fl_add (Some x) (Some y) = Some (x + y)"
  by (simp add: fl_add_def chk_def)

lemma fl_sub_Some: "\<bar>x - y\<bar> \<le> max_double \<Longrightarrow> fl_sub (Some x) (Some y) = Some (x - y)"
  by (simp add: fl_sub_def chk_def)

lemma fl_mul_Some: "\<bar>x * y\<bar> \<le> max_double \<Longrightarrow> fl_mul (Some x) (Some y) = Some (x * y)"
  by (simp add: fl_mul_def chk_def)

lemma uniform_ovf_Some:
  assumes "\<bar>high - low\<bar> \<le> max_double"
    and "\<bar>(high - low) * shd rs\<bar> \<le> max_double"
    and "\<bar>low + (high - low) * shd rs\<bar> \<le> max_double"
  shows "uniform_ovf (Some low) (Some high) rs =
           Inr (Some (low + (high - low) * shd rs), stl rs)"
  by (simp only: uniform_ovf_def fl_sub_Some [OF assms(1)] fl_mul_Some [OF assms(2)]
      fl_add_Some [OF assms(3)] option.case)

lemma trial_ovf_finite:
  assumes b: "0 < b" "2.1 * b \<le> max_double"
    and g: "0 \<le> g" "g < 1"
    and c: "0 < c" "c < 1"
    and t: "0 \<le> t" "t < 1"
    and rs: "unit_samples rs"
  shows "trial_ovf (Some b) (Some g) (Some c) (Some t) rs =
           Inr (finite_row (fst (trial b g c t rs)), snd (trial b g c t rs))"
proof -
  define u1 where "u1 = - g + (g - - g) * shd rs"
  define rev where "rev = b * (1 + u1)"
  define u2 where "u2 = (c - 0.05) + ((c + 0.05) - (c - 0.05)) * shd (stl rs)"
  have u: "0 \<le> shd rs" "shd rs < 1" using unit_samples_shd [OF rs] by auto
  have v: "0 \<le> shd (stl rs)" "shd (stl rs) < 1"
    using unit_samples_shd [OF unit_samples_stl [OF rs]] by auto
  note M = max_double_ge_4
  have gu: "0 \<le> g * shd rs" "g * shd rs \<le> g"
    using g u by (simp_all add: mult_left_le)
  have u1b: "- g \<le> u1" "u1 \<le> g"
    using gu by (simp_all add: u1_def algebra_simps)
  have U1: "uniform_ovf (fl_neg (Some g)) (Some g) rs = Inr (Some u1, stl rs)"
    unfolding fl_neg_Some u1_def
  proof (rule uniform_ovf_Some)
    show "\<bar>g - - g\<bar> \<le> max_double" using g M by simp
    show "\<bar>(g - - g) * shd rs\<bar> \<le> max_double"
      using gu g M by (simp add: algebra_simps abs_le_iff)
    show "\<bar>- g + (g - - g) * shd rs\<bar> \<le> max_double"
      using u1b g M by (simp add: u1_def abs_le_iff)
  qed
  have A1: "fl_add (Some 1) (Some u1) = Some (1 + u1)"
    by (rule fl_add_Some) (use u1b g M in \<open>simp add: abs_le_iff\<close>)
  have f1: "0 \<le> 1 + u1" "1 + u1 \<le> 2" using u1b g by simp_all
  have revb: "0 \<le> rev" "rev \<le> 2 * b"
  proof -
    show "0 \<le> rev" unfolding rev_def using b(1) f1(1) by simp
    have "b * (1 + u1) \<le> b * 2" using b(1) f1(2) by (intro mult_left_mono) simp_all
    then show "rev \<le> 2 * b" by (simp add: rev_def)
  qed
  have revM: "\<bar>rev\<bar> \<le> max_double" using revb b by linarith
  have R: "fl_mul (Some b) (Some (1 + u1)) = Some rev"
    unfolding rev_def
    by (rule fl_mul_Some) (use revM in \<open>simp only: rev_def\<close>)
  have L: "fl_sub (Some c) (Some 0.05) = Some (c - 0.05)"
    by (rule fl_sub_Some) (use c M in \<open>simp add: abs_le_iff\<close>)
  have H: "fl_add (Some c) (Some 0.05) = Some (c + 0.05)"
    by (rule fl_add_Some) (use c M in \<open>simp add: abs_le_iff\<close>)
  have u2b: "c - 0.05 \<le> u2" "u2 \<le> c + 0.05"
    using v by (simp_all add: u2_def)
  have U2: "uniform_ovf (Some (c - 0.05)) (Some (c + 0.05)) (stl rs) = Inr (Some u2, stl (stl rs))"
    unfolding u2_def
  proof (rule uniform_ovf_Some)
    show "\<bar>c + 0.05 - (c - 0.05)\<bar> \<le> max_double" using M by simp
    show "\<bar>(c + 0.05 - (c - 0.05)) * shd (stl rs)\<bar> \<le> max_double"
      using v M by (simp add: abs_le_iff)
    show "\<bar>c - 0.05 + (c + 0.05 - (c - 0.05)) * shd (stl rs)\<bar> \<le> max_double"
      using u2b c M by (simp add: u2_def abs_le_iff)
  qed
  have au2: "\<bar>u2\<bar> \<le> 1.05" using u2b c by simp
  have a1u2: "\<bar>1 - u2\<bar> \<le> 1.05"
  proof -
    have "1 - u2 \<le> 1.05" "- (1 - u2) \<le> 1.05" using u2b c by simp_all
    then show ?thesis by (simp only: abs_le_iff)
  qed
  have big: "rev * 1.05 \<le> max_double"
  proof -
    have "rev * 1.05 \<le> (2 * b) * 1.05" using revb(2) by (intro mult_right_mono) simp_all
    also have "\<dots> = 2.1 * b" by simp
    finally show ?thesis using b(2) by simp
  qed
  have costb: "\<bar>rev * u2\<bar> \<le> max_double"
  proof -
    have "\<bar>rev * u2\<bar> = rev * \<bar>u2\<bar>" using revb(1) by (simp add: abs_mult)
    also have "\<dots> \<le> rev * 1.05" using revb(1) au2 by (intro mult_left_mono) simp_all
    finally show ?thesis using big by simp
  qed
  have diffb: "\<bar>rev - rev * u2\<bar> \<le> max_double"
  proof -
    have "rev - rev * u2 = rev * (1 - u2)" by (simp add: algebra_simps)
    then have "\<bar>rev - rev * u2\<bar> = rev * \<bar>1 - u2\<bar>"
      using revb(1) by (simp only: abs_mult abs_of_nonneg)
    also have "\<dots> \<le> rev * 1.05" using revb(1) a1u2 by (intro mult_left_mono) simp_all
    finally show ?thesis using big by simp
  qed
  have C: "fl_mul (Some rev) (Some u2) = Some (rev * u2)"
    using costb by (rule fl_mul_Some)
  have D: "fl_sub (Some rev) (Some (rev * u2)) = Some (rev - rev * u2)"
    using diffb by (rule fl_sub_Some)
  have T: "fl_sub (Some 1) (Some t) = Some (1 - t)"
    by (rule fl_sub_Some) (use t M in \<open>simp add: abs_le_iff\<close>)
  have profb: "\<bar>(rev - rev * u2) * (1 - t)\<bar> \<le> max_double"
  proof -
    have "\<bar>(rev - rev * u2) * (1 - t)\<bar> = \<bar>rev - rev * u2\<bar> * (1 - t)"
      using t by (simp add: abs_mult)
    also have "\<dots> \<le> \<bar>rev - rev * u2\<bar> * 1" using t by (intro mult_left_mono) simp_all
    finally show ?thesis using diffb by simp
  qed
  have P: "fl_mul (Some (rev - rev * u2)) (Some (1 - t)) = Some ((rev - rev * u2) * (1 - t))"
    using profb by (rule fl_mul_Some)
  have re: "trial b g c t rs =
      (\<lparr>Revenue = rev, Cost = rev * u2, Profit = (rev - rev * u2) * (1 - t)\<rparr>, stl (stl rs))"
    by (simp add: trial_def uniform_def Let_def u1_def rev_def u2_def)
  show ?thesis
    by (simp only: trial_ovf_def U1 A1 R L H U2 C D T P re Let_def sum.case prod.case
        finite_row_def row.simps fst_conv snd_conv)
qed


lemma trial_rng_stl: "snd (trial b g c t rs) = stl (stl rs)"
  by (simp add: trial_def uniform_def Let_def)

lemma simulate_loop_ovf_finite:
  assumes "0 < b" "2.1 * b \<le> max_double" "0 \<le> g" "g < 1" "0 < c" "c < 1" "0 \<le> t" "t < 1"
    and "unit_samples rs"
  shows "simulate_loop_ovf (Some b) (Some g) (Some c) (Some t) k (map finite_row rows) rs =
           Inr (map finite_row (fst (simulate_loop b g c t k rows rs)),
                snd (simulate_loop b g c t k rows rs))"
  using assms(9)
proof (induction k arbitrary: rows rs)
  case 0
  show ?case by simp
next
  case (Suc k)
  have tr: "trial_ovf (Some b) (Some g) (Some c) (Some t) rs =
           Inr (finite_row (fst (trial b g c t rs)), snd (trial b g c t rs))"
    using assms(1-8) Suc.prems by (rule trial_ovf_finite)
  have "unit_samples (snd (trial b g c t rs))"
    using Suc.prems by (simp add: trial_rng_stl unit_samples_stl)
  from Suc.IH [OF this, of "rows @ [fst (trial b g c t rs)]"] show ?case
    by (simp add: tr split_def Let_def)
qed

lemma fl_mul_None: "fl_mul None y = None"
  by (simp add: fl_mul_def)

lemma fl_sub_None: "fl_sub None y = None"
  by (simp add: fl_sub_def)

lemma chk_small: "\<bar>x\<bar> \<le> 4 \<Longrightarrow> chk x = Some x"
  using max_double_ge_4 by (intro chk_Some) simp

subsection \<open>Finite results\<close>

text \<open>
  Claim C9 says that for every finite parameter set in the domain of the specification
  every profit is finite and no exception is raised. The domain lets the base sales be any
  positive finite double, and the source guards no product against overflow. With base
  sales \<open>1.5e308\<close>, growth rate 0.5, cost fraction 0.55, tax fraction 0.25 and the unit
  samples 0.75 and 0, the revenue \<open>1.5e308 * 1.25\<close> is beyond the largest finite double:
  revenue and cost are infinite and the profit is NaN. No exception is raised.
\<close>

theorem simulate_df_ovf_counterexample:
  "chk (15 * 10 ^ 307) = Some (15 * 10 ^ 307)
   \<and> unit_samples (3/4 ## sconst 0)
   \<and> simulate_df_ovf (Some (15 * 10 ^ 307)) (Some (1/2)) (Some (11/20)) (Some (1/4)) 1
        (3/4 ## sconst 0) =
       Inr ([\<lparr>Revenue_ovf = None, Cost_ovf = None, Profit_ovf = None\<rparr>], sconst 0)"
proof -
  have a: "chk (15 * 10 ^ 307) = Some (15 * 10 ^ 307)"
    by (simp add: chk_def max_double_def)
  have u: "unit_samples (3/4 ## sconst 0)"
    by (simp add: unit_samples_def)
  have U1: "uniform_ovf (fl_neg (Some (1/2))) (Some (1/2)) (3/4 ## sconst 0) =
              Inr (Some (1/4), sconst 0)"
    by (simp add: uniform_ovf_def fl_neg_def fl_sub_def fl_mul_def fl_add_def chk_small)
  have A1: "fl_add (Some 1) (Some (1/4)) = Some (5/4)"
    by (simp add: fl_add_def chk_small)
  have R: "fl_mul (Some (15 * 10 ^ 307)) (Some (5/4)) = None"
  proof -
    have "(2::real) ^ 1024 < 15 * 10 ^ 307 * (5/4)" by simp
    with max_double_lt have "max_double < \<bar>15 * 10 ^ 307 * (5/4)\<bar>" by simp
    then have "chk (15 * 10 ^ 307 * (5/4)) = None" by (rule chk_None)
    then show ?thesis by (simp only: fl_mul_def prod.case option.case)
  qed
  have U2: "uniform_ovf (fl_sub (Some (11/20)) (Some 0.05)) (fl_add (Some (11/20)) (Some 0.05))
              (sconst 0) = Inr (Some (1/2), sconst 0)"
    by (simp add: uniform_ovf_def fl_sub_def fl_mul_def fl_add_def chk_small)
  have tr: "trial_ovf (Some (15 * 10 ^ 307)) (Some (1/2)) (Some (11/20)) (Some (1/4))
              (3/4 ## sconst 0) =
            Inr (\<lparr>Revenue_ovf = None, Cost_ovf = None, Profit_ovf = None\<rparr>, sconst 0)"
    by (simp only: trial_ovf_def U1 A1 R U2 fl_mul_None fl_sub_None Let_def sum.case prod.case)
  have s: "simulate_df_ovf (Some (15 * 10 ^ 307)) (Some (1/2)) (Some (11/20)) (Some (1/4)) 1
        (3/4 ## sconst 0) =
       Inr ([\<lparr>Revenue_ovf = None, Cost_ovf = None, Profit_ovf = None\<rparr>], sconst 0)"
    by (simp only: simulate_df_ovf_def nat_1 simulate_loop_ovf.simps tr sum.case prod.case
        append_Nil)
  from a u s show ?thesis by (intro conjI)
qed

text \<open>
  Claim C9, amended. For every finite parameter set in the domain of the specification
  (base sales \<open>b > 0\<close>, growth rate in \<open>[0, 1)\<close>, cost fraction in \<open>(0, 1)\<close>, tax fraction in
  \<open>[0, 1)\<close>) with \<open>2.1 * b\<close> no larger than the largest finite double, and for every
  generator whose unit samples lie in \<open>[0, 1)\<close>, \<open>simulate_df\<close> raises no exception and
  returns one row per run in which revenue, cost and profit are finite; they are the
  values of the reading on reals. The base sales the sidebar allows, up to 50,000,000,
  are far inside this bound.
\<close>

theorem simulate_df_ovf_finite:
  assumes "0 < b" "2.1 * b \<le> max_double" "0 \<le> g" "g < 1" "0 < c" "c < 1" "0 \<le> t" "t < 1"
    and "unit_samples rs"
  shows "\<exists>rows rs'.
           simulate_df_ovf (Some b) (Some g) (Some c) (Some t) n rs = Inr (rows, rs')
         \<and> rows = map finite_row (fst (simulate_df b g c t n rs))
         \<and> length rows = nat n
         \<and> (\<forall>r \<in> set rows. \<exists>p. Profit_ovf r = Some p)"
proof -
  have "simulate_df_ovf (Some b) (Some g) (Some c) (Some t) n rs =
          Inr (map finite_row (fst (simulate_df b g c t n rs)), snd (simulate_df b g c t n rs))"
    using simulate_loop_ovf_finite [OF assms, of "nat n" "[]"]
    by (simp add: simulate_df_ovf_def simulate_df_def)
  moreover have "length (map finite_row (fst (simulate_df b g c t n rs))) = nat n"
    by (simp add: simulate_df_def simulate_loop_length)
  moreover have "\<forall>r \<in> set (map finite_row (fst (simulate_df b g c t n rs))).
                   \<exists>p. Profit_ovf r = Some p"
    by (auto simp: finite_row_def)
  ultimately show ?thesis by blast
qed

theorem simulate_df_ovf_finite_witness:
  "(0::real) < 500000 \<and> 2.1 * 500000 \<le> max_double
   \<and> (0::real) \<le> 1/10 \<and> (1/10::real) < 1 \<and> (0::real) < 2/5 \<and> (2/5::real) < 1
   \<and> (0::real) \<le> 1/5 \<and> (1/5::real) < 1
   \<and> unit_samples (sconst (1/2))
   \<and> simulate_df_ovf (Some 500000) (Some (1/10)) (Some (2/5)) (Some (1/5)) 1 (sconst (1/2)) =
       Inr ([\<lparr>Revenue_ovf = Some 500000, Cost_ovf = Some 200000, Profit_ovf = Some 240000\<rparr>],
            sconst (1/2))"
proof -
  have b: "(0::real) < 500000" by simp
  have m: "2.1 * 500000 \<le> max_double"
  proof -
    have "(2.1 * 500000 :: real) \<le> 2 ^ 21" by simp
    also have "(2::real) ^ 21 \<le> 2 ^ 1023" by (rule power_increasing) simp_all
    finally show ?thesis using max_double_ge by simp
  qed
  have g: "(0::real) \<le> 1/10" "(1/10::real) < 1" by simp_all
  have c: "(0::real) < 2/5" "(2/5::real) < 1" by simp_all
  have t: "(0::real) \<le> 1/5" "(1/5::real) < 1" by simp_all
  have u: "unit_samples (sconst (1/2))" by (simp add: unit_samples_def)
  have e: "simulate_df 500000 (1/10) (2/5) (1/5) 1 (sconst (1/2)) =
      ([\<lparr>Revenue = 500000, Cost = 200000, Profit = 240000\<rparr>], sconst (1/2))"
    by (simp add: simulate_df_def trial_def uniform_def Let_def)
  from simulate_df_ovf_finite [OF b m g c t u, of 1] e
  have "simulate_df_ovf (Some 500000) (Some (1/10)) (Some (2/5)) (Some (1/5)) 1 (sconst (1/2)) =
       Inr ([\<lparr>Revenue_ovf = Some 500000, Cost_ovf = Some 200000, Profit_ovf = Some 240000\<rparr>],
            sconst (1/2))"
    using simulate_loop_ovf_finite [OF b m g c t u, of "nat 1" "[]"]
    by (simp add: finite_row_def simulate_df_ovf_def simulate_df_def)
  with b m g c t u show ?thesis by simp
qed


end
